theory Spec2Isabelle
  imports Main
begin

section \<open>The OCR page controller of \<^verbatim>\<open>Front/src/static/ocr.js\<close>\<close>

text \<open>
  The class \<^verbatim>\<open>OCRApplication\<close> is a browser-side controller: one field
  \<^verbatim>\<open>currentFile\<close>, a table of page elements, and handlers for the page's events.
  The handlers are embedded as functions on an explicit state (the controller's field, the
  properties of the page elements the code writes, and what the browser still owes the
  page: running uploads, file readers, timers). Every handler runs to its end, or to its
  next \<^verbatim>\<open>await\<close>, without being interrupted, so an event is one step of the state.
\<close>

subsection \<open>Text\<close>

text \<open>
  A JavaScript string is a sequence of UTF-16 code units. The texts of the page are
  Russian, so a text is the list of its code units; MIME types, colours, class names and
  URLs are ASCII and are written as strings.
\<close>

type_synonym ustring = "nat list"

text \<open>The file-type error passed to showError (line 76).\<close>

definition msg_bad_type :: ustring where
  "msg_bad_type =
    [1055, 1086, 1078, 1072, 1083, 1091, 1081, 1089, 1090, 1072, 44, 32, 1074, 1099,
     1073, 1077, 1088, 1080, 1090, 1077, 32, 1092, 1072, 1081, 1083, 32, 1080, 1079,
     1086, 1073, 1088, 1072, 1078, 1077, 1085, 1080, 1103, 32, 40, 80, 78, 71, 44, 32,
     74, 80, 71, 44, 32, 66, 77, 80, 44, 32, 84, 73, 70, 70, 41]"

text \<open>The file-size error passed to showError (line 82).\<close>

definition msg_too_big :: ustring where
  "msg_too_big =
    [1060, 1072, 1081, 1083, 32, 1089, 1083, 1080, 1096, 1082, 1086, 1084, 32, 1073,
     1086, 1083, 1100, 1096, 1086, 1081, 46, 32, 1052, 1072, 1082, 1089, 1080, 1084,
     1072, 1083, 1100, 1085, 1099, 1081, 32, 1088, 1072, 1079, 1084, 1077, 1088, 58, 32,
     49, 54, 77, 66]"

text \<open>The FileReader error passed to showError (line 109).\<close>

definition msg_read_error :: ustring where
  "msg_read_error =
    [1054, 1096, 1080, 1073, 1082, 1072, 32, 1095, 1090, 1077, 1085, 1080, 1103, 32,
     1092, 1072, 1081, 1083, 1072]"

text \<open>The prefix of the file-name label (line 116).\<close>

definition pre_selected :: ustring where
  "pre_selected =
    [1042, 1099, 1073, 1088, 1072, 1085, 32, 1092, 1072, 1081, 1083, 58, 32]"

text \<open>The prefix of the file-name display (lines 118 and 157).\<close>

definition pre_file :: ustring where
  "pre_file =
    [1060, 1072, 1081, 1083, 58, 32]"

text \<open>The label of the recognize button when ready (lines 142 and 212).\<close>

definition lbl_recognize :: ustring where
  "lbl_recognize =
    [1056, 1072, 1089, 1087, 1086, 1079, 1085, 1072, 1090, 1100, 32, 1090, 1077, 1082,
     1089, 1090]"

text \<open>The placeholder of the result box (lines 150 and 221).\<close>

definition txt_placeholder :: ustring where
  "txt_placeholder =
    [1047, 1076, 1077, 1089, 1100, 32, 1087, 1086, 1103, 1074, 1080, 1090, 1089, 1103,
     32, 1088, 1072, 1089, 1087, 1086, 1079, 1085, 1072, 1085, 1085, 1099, 1081, 32,
     1090, 1077, 1082, 1089, 1090, 46, 46, 46]"

text \<open>The notification of recognizeText without a file (line 168).\<close>

definition msg_choose_first :: ustring where
  "msg_choose_first =
    [1055, 1086, 1078, 1072, 1083, 1091, 1081, 1089, 1090, 1072, 44, 32, 1089, 1085,
     1072, 1095, 1072, 1083, 1072, 32, 1074, 1099, 1073, 1077, 1088, 1080, 1090, 1077,
     32, 1092, 1072, 1081, 1083]"

text \<open>The label of the recognize button while loading (line 208).\<close>

definition lbl_processing :: ustring where
  "lbl_processing =
    [1054, 1073, 1088, 1072, 1073, 1086, 1090, 1082, 1072, 46, 46, 46]"

text \<open>The success notification of recognizeText (line 188).\<close>

definition msg_recognized :: ustring where
  "msg_recognized =
    [1058, 1077, 1082, 1089, 1090, 32, 1091, 1089, 1087, 1077, 1096, 1085, 1086, 32,
     1088, 1072, 1089, 1087, 1086, 1079, 1085, 1072, 1085, 33]"

text \<open>The prefix of the server-error notification (line 191).\<close>

definition pre_error :: ustring where
  "pre_error =
    [1054, 1096, 1080, 1073, 1082, 1072, 58, 32]"

text \<open>The console diagnostic of recognizeText (line 195).\<close>

definition msg_console_net :: ustring where
  "msg_console_net =
    [1054, 1096, 1080, 1073, 1082, 1072, 32, 1089, 1077, 1090, 1080, 58]"

text \<open>The network error passed to showError (line 196).\<close>

definition msg_net_upload :: ustring where
  "msg_net_upload =
    [1054, 1096, 1080, 1073, 1082, 1072, 32, 1089, 1077, 1090, 1080, 32, 1087, 1088,
     1080, 32, 1079, 1072, 1075, 1088, 1091, 1079, 1082, 1077, 32, 1092, 1072, 1081,
     1083, 1072]"

text \<open>The generic network-error notification (line 197).\<close>

definition msg_net_generic :: ustring where
  "msg_net_generic =
    [1054, 1096, 1080, 1073, 1082, 1072, 32, 1089, 1077, 1090, 1080, 46, 32, 1055, 1088,
     1086, 1074, 1077, 1088, 1100, 1090, 1077, 32, 1087, 1086, 1076, 1082, 1083, 1102,
     1095, 1077, 1085, 1080, 1077, 46]"

text \<open>The notification of copyToClipboard without text (line 222).\<close>

definition msg_nothing_to_copy :: ustring where
  "msg_nothing_to_copy =
    [1053, 1077, 1090, 32, 1090, 1077, 1082, 1089, 1090, 1072, 32, 1076, 1083, 1103, 32,
     1082, 1086, 1087, 1080, 1088, 1086, 1074, 1072, 1085, 1080, 1103]"

text \<open>The notification after clipboard.writeText (line 228).\<close>

definition msg_copied_clipboard :: ustring where
  "msg_copied_clipboard =
    [1058, 1077, 1082, 1089, 1090, 32, 1089, 1082, 1086, 1087, 1080, 1088, 1086, 1074,
     1072, 1085, 32, 1074, 32, 1073, 1091, 1092, 1077, 1088, 32, 1086, 1073, 1084, 1077,
     1085, 1072, 33]"

text \<open>The notification after the execCommand fallback (line 238).\<close>

definition msg_copied :: ustring where
  "msg_copied =
    [1058, 1077, 1082, 1089, 1090, 32, 1089, 1082, 1086, 1087, 1080, 1088, 1086, 1074,
     1072, 1085, 33]"

text \<open>The console diagnostic of checkSystemStatus (line 256).\<close>

definition msg_console_status :: ustring where
  "msg_console_status =
    [1054, 1096, 1080, 1073, 1082, 1072, 32, 1087, 1088, 1086, 1074, 1077, 1088, 1082,
     1080, 32, 1089, 1090, 1072, 1090, 1091, 1089, 1072, 58]"

text \<open>The status text after a failed status check (line 257).\<close>

definition msg_status_error :: ustring where
  "msg_status_error =
    [1054, 1096, 1080, 1073, 1082, 1072, 32, 1087, 1088, 1086, 1074, 1077, 1088, 1082,
     1080]"

text \<open>What a template literal prints for an undefined value.\<close>

definition txt_undefined :: ustring where
  "txt_undefined =
    [117, 110, 100, 101, 102, 105, 110, 101, 100]"
text \<open>
  A value that may be \<^verbatim>\<open>undefined\<close> (an optional member of a JSON reply) is an
  option. Assigning it to \<^verbatim>\<open>textContent\<close> gives the empty text for
  \<^verbatim>\<open>undefined\<close>; a template literal prints \<^verbatim>\<open>undefined\<close>.
\<close>

fun textContent_of :: "ustring option \<Rightarrow> ustring" where
  "textContent_of None = []"
| "textContent_of (Some t) = t"

fun template_of :: "ustring option \<Rightarrow> ustring" where
  "template_of None = txt_undefined"
| "template_of (Some t) = t"

subsection \<open>Data\<close>

text \<open>The browser's \<^verbatim>\<open>File\<close>: the members the code reads (name, type, size).\<close>

record File =
  fname :: ustring
  ftype :: string
  fsize :: nat

text \<open>A notification element: its identity, its class name and its text.\<close>

record notification =
  nid :: nat
  nclass :: string
  ntext :: ustring

text \<open>
  The content of the upload area: what the page's markup put there, the clone of the icon
  field (\<^verbatim>\<open>restoreDefaultView\<close>), or the preview image of a file.
\<close>

datatype area = PageMarkup | IconClone | PreviewImg File

text \<open>A call of \<^verbatim>\<open>fetch\<close>: the URL, the method and the fields of the form body.\<close>

record request =
  url :: string
  http_method :: string
  form :: "(string \<times> File) list"

text \<open>
  The JSON object of \<^verbatim>\<open>POST /upload\<close>: \<open>success\<close> is the truthiness of
  \<^verbatim>\<open>data.success\<close>, the other members may be absent.
\<close>

record upload_reply =
  success :: bool
  recognized_text :: "ustring option"
  filename :: "ustring option"
  error :: "ustring option"

text \<open>The JSON object of \<^verbatim>\<open>GET /model_status\<close>.\<close>

record status_reply =
  status :: "ustring option"
  engine :: "string option"

text \<open>
  How \<^verbatim>\<open>await fetch(...)\<close> followed by \<^verbatim>\<open>await response.json()\<close> ends:
  the fetch rejects, the parse rejects, the body is the JSON \<^verbatim>\<open>null\<close> (reading a
  member of it throws), or the body is an object. The code does nothing between the two
  awaits, so they are one event.
\<close>

datatype 'a outcome = FetchRejected | JsonRejected | ParsedNull | Parsed 'a

text \<open>What the code asks of the browser, in the order it asks.\<close>

datatype effect =
    Fetch nat request
  | ReadAsDataURL nat File
  | SetTimeout nat nat
  | ScrollIntoView
  | ConsoleError ustring
  | ClipboardWrite nat ustring
  | ExecCopy ustring

text \<open>
  The state: the controller's \<open>currentFile\<close>; the properties the code writes on the page's
  elements; the notification elements in the document; the log of effects; and the
  pending work of the browser (uploads, readers, clipboard writes, the status request,
  timers), each identified by a number drawn from \<open>next_id\<close>.
\<close>

record state =
  currentFile :: "File option"
  fileInput_value :: ustring
  uploadArea :: area
  drag_over :: bool
  fileName_text :: ustring
  fileName_color :: string
  fileNameDisplay_text :: ustring
  recognizeBtn_disabled :: bool
  recognizeBtn_text :: ustring
  resultText_text :: ustring
  resultText_color :: string
  systemStatus_text :: ustring
  systemStatus_class :: string
  notifications :: "notification list"
  effects :: "effect list"
  uploads :: "(nat \<times> File) list"
  readers :: "(nat \<times> File) list"
  clip_writes :: "(nat \<times> ustring) list"
  status_pending :: bool
  timers :: "nat list"
  next_id :: nat

subsection \<open>The handlers\<close>

definition handleDragOver :: "state \<Rightarrow> state" where
  "handleDragOver s = s\<lparr>drag_over := True\<rparr>"

definition handleDragLeave :: "state \<Rightarrow> state" where
  "handleDragLeave s = s\<lparr>drag_over := False\<rparr>"

definition restoreDefaultView :: "state \<Rightarrow> state" where
  "restoreDefaultView s = s\<lparr>uploadArea := IconClone\<rparr>"

definition enableRecognizeButton :: "state \<Rightarrow> state" where
  "enableRecognizeButton s =
     s\<lparr>recognizeBtn_disabled := False, recognizeBtn_text := lbl_recognize\<rparr>"

definition disableRecognizeButton :: "state \<Rightarrow> state" where
  "disableRecognizeButton s = s\<lparr>recognizeBtn_disabled := True\<rparr>"

definition hideResult :: "state \<Rightarrow> state" where
  "hideResult s = s\<lparr>resultText_text := txt_placeholder, resultText_color := ''#666''\<rparr>"

text \<open>
  \<^verbatim>\<open>resetFileSelection\<close> (lines 127 to 133), statement by statement; the fourth one
  empties the file-name label.
\<close>

definition resetFileSelection :: "state \<Rightarrow> state" where
  "resetFileSelection s =
     restoreDefaultView
       ((disableRecognizeButton (s\<lparr>currentFile := None, fileInput_value := []\<rparr>))
          \<lparr>fileName_text := []\<rparr>)"

text \<open>
  \<^verbatim>\<open>showError\<close> (lines 121 to 125) writes the message and the colour, then calls
  \<^verbatim>\<open>resetFileSelection\<close>.
\<close>

definition showError :: "ustring option \<Rightarrow> state \<Rightarrow> state" where
  "showError message s =
     resetFileSelection
       (s\<lparr>fileName_text := textContent_of message, fileName_color := ''#f44336''\<rparr>)"

definition updateFileInfo :: "ustring \<Rightarrow> state \<Rightarrow> state" where
  "updateFileInfo name s =
     s\<lparr>fileName_text := pre_selected @ name,
       fileName_color := ''#4CAF50'',
       fileNameDisplay_text := pre_file @ name\<rparr>"

text \<open>
  \<^verbatim>\<open>displayFilePreview\<close> starts a \<^verbatim>\<open>FileReader\<close>; the image is put into the
  upload area when the reader reports the load (\<open>reader_onload\<close>), and a failed read
  goes to \<^verbatim>\<open>showError\<close> (\<open>reader_onerror\<close>).
\<close>

definition displayFilePreview :: "File \<Rightarrow> state \<Rightarrow> state" where
  "displayFilePreview f s =
     s\<lparr>readers := readers s @ [(next_id s, f)],
       effects := effects s @ [ReadAsDataURL (next_id s) f],
       next_id := next_id s + 1\<rparr>"

definition reader_onload :: "File \<Rightarrow> state \<Rightarrow> state" where
  "reader_onload f s = s\<lparr>uploadArea := PreviewImg f\<rparr>"

definition reader_onerror :: "state \<Rightarrow> state" where
  "reader_onerror s = showError (Some msg_read_error) s"

definition allowedTypes :: "string list" where
  "allowedTypes = [''image/png'', ''image/jpeg'', ''image/jpg'', ''image/bmp'', ''image/tiff'']"

text \<open>
  \<^verbatim>\<open>handleFileSelect\<close> (lines 70 to 91). The argument is \<open>None\<close> for a falsy value
  (line 71); a \<^verbatim>\<open>File\<close> object is never falsy.
\<close>

definition handleFileSelect :: "File option \<Rightarrow> state \<Rightarrow> state" where
  "handleFileSelect fo s =
     (case fo of
        None \<Rightarrow> s
      | Some f \<Rightarrow>
          if ftype f \<notin> set allowedTypes then showError (Some msg_bad_type) s
          else if fsize f > 16 * 1024 * 1024 then showError (Some msg_too_big) s
          else hideResult
                 (enableRecognizeButton
                    (updateFileInfo (fname f)
                       (displayFilePreview f (s\<lparr>currentFile := Some f\<rparr>)))))"

text \<open>The listeners of lines 33 to 37 and 60 to 68: the first file of a non-empty list.\<close>

definition on_change :: "File list \<Rightarrow> state \<Rightarrow> state" where
  "on_change files s =
     (case files of [] \<Rightarrow> s | f # _ \<Rightarrow> handleFileSelect (Some f) s)"

definition handleDrop :: "File list \<Rightarrow> state \<Rightarrow> state" where
  "handleDrop files s =
     (case files of
        [] \<Rightarrow> s\<lparr>drag_over := False\<rparr>
      | f # _ \<Rightarrow> handleFileSelect (Some f) (s\<lparr>drag_over := False\<rparr>))"

text \<open>
  \<^verbatim>\<open>showNotification\<close> (lines 262 to 280): every element of class
  \<^verbatim>\<open>notification\<close> is removed from the document, so that the new one, once
  appended, is the only one; a timer of 4000 ms is set for it.
\<close>

definition showNotification :: "ustring \<Rightarrow> string \<Rightarrow> state \<Rightarrow> state" where
  "showNotification message type s =
     s\<lparr>notifications :=
         [\<lparr>nid = next_id s, nclass = ''notification notification-'' @ type, ntext = message\<rparr>],
       timers := timers s @ [next_id s],
       effects := effects s @ [SetTimeout (next_id s) 4000],
       next_id := next_id s + 1\<rparr>"

text \<open>The timer's callback (lines 275 to 279): the element is removed if it is still there.\<close>

definition notification_timeout :: "nat \<Rightarrow> state \<Rightarrow> state" where
  "notification_timeout n s =
     s\<lparr>notifications := filter (\<lambda>x. nid x \<noteq> n) (notifications s),
       timers := removeAll n (timers s)\<rparr>"

definition showResult :: "ustring option \<Rightarrow> ustring option \<Rightarrow> state \<Rightarrow> state" where
  "showResult text name s =
     s\<lparr>resultText_text := textContent_of text,
       resultText_color := ''#000'',
       fileNameDisplay_text := pre_file @ template_of name,
       effects := effects s @ [ScrollIntoView]\<rparr>"

definition setRecognizeButtonState :: "string \<Rightarrow> state \<Rightarrow> state" where
  "setRecognizeButtonState st s =
     (if st = ''loading'' then s\<lparr>recognizeBtn_text := lbl_processing, recognizeBtn_disabled := True\<rparr>
      else if st = ''ready'' then s\<lparr>recognizeBtn_text := lbl_recognize, recognizeBtn_disabled := False\<rparr>
      else s)"

definition console_error :: "ustring \<Rightarrow> state \<Rightarrow> state" where
  "console_error m s = s\<lparr>effects := effects s @ [ConsoleError m]\<rparr>"

text \<open>
  \<^verbatim>\<open>recognizeText\<close> (lines 166 to 201) is an async function. Its first part runs to
  \<^verbatim>\<open>await fetch\<close>: without a file it notifies and returns; with one it sets the
  button to loading and posts the form, whose only field \<^verbatim>\<open>file\<close> is the file
  selected at that moment.
\<close>

definition post_upload :: "File \<Rightarrow> state \<Rightarrow> state" where
  "post_upload f s =
     s\<lparr>uploads := uploads s @ [(next_id s, f)],
       effects := effects s @
         [Fetch (next_id s) \<lparr>url = ''/upload'', http_method = ''POST'', form = [(''file'', f)]\<rparr>],
       next_id := next_id s + 1\<rparr>"

definition recognizeText :: "state \<Rightarrow> state" where
  "recognizeText s =
     (case currentFile s of
        None \<Rightarrow> showNotification msg_choose_first ''error'' s
      | Some f \<Rightarrow> post_upload f (setRecognizeButtonState ''loading'' s))"

text \<open>
  Its second part runs when the request \<open>i\<close> has ended with the outcome \<open>out\<close>: the
  \<^verbatim>\<open>try\<close> body after the awaits, the \<^verbatim>\<open>catch\<close> for everything thrown, and
  the \<^verbatim>\<open>finally\<close> around both.
\<close>

definition recognizeText_try :: "upload_reply \<Rightarrow> state \<Rightarrow> state" where
  "recognizeText_try d s =
     (if success d
      then showNotification msg_recognized ''success''
             (showResult (recognized_text d) (filename d) s)
      else showNotification (pre_error @ template_of (error d)) ''error''
             (showError (error d) s))"

definition recognizeText_catch :: "state \<Rightarrow> state" where
  "recognizeText_catch s =
     showNotification msg_net_generic ''error''
       (showError (Some msg_net_upload) (console_error msg_console_net s))"

definition recognizeText_resume :: "nat \<Rightarrow> upload_reply outcome \<Rightarrow> state \<Rightarrow> state" where
  "recognizeText_resume i out s =
     setRecognizeButtonState ''ready''
       ((case out of Parsed d \<Rightarrow> recognizeText_try d | _ \<Rightarrow> recognizeText_catch)
          (s\<lparr>uploads := filter (\<lambda>p. fst p \<noteq> i) (uploads s)\<rparr>))"

text \<open>
  \<^verbatim>\<open>copyToClipboard\<close> (lines 218 to 240): the first part runs to the await of
  \<^verbatim>\<open>clipboard.writeText\<close>, the second when the write has ended (\<open>ok\<close>) or has
  thrown, in which case the text is copied through a temporary text area. Where
  \<^verbatim>\<open>writeText\<close> throws at once, the second part follows the first directly.
\<close>

definition copyToClipboard :: "state \<Rightarrow> state" where
  "copyToClipboard s =
     (if resultText_text s = [] \<or> resultText_text s = txt_placeholder
      then showNotification msg_nothing_to_copy ''error'' s
      else s\<lparr>clip_writes := clip_writes s @ [(next_id s, resultText_text s)],
             effects := effects s @ [ClipboardWrite (next_id s) (resultText_text s)],
             next_id := next_id s + 1\<rparr>)"

definition copyToClipboard_resume :: "nat \<Rightarrow> ustring \<Rightarrow> bool \<Rightarrow> state \<Rightarrow> state" where
  "copyToClipboard_resume i t ok s =
     (if ok
      then showNotification msg_copied_clipboard ''success''
             (s\<lparr>clip_writes := filter (\<lambda>p. fst p \<noteq> i) (clip_writes s)\<rparr>)
      else showNotification msg_copied ''success''
             (s\<lparr>clip_writes := filter (\<lambda>p. fst p \<noteq> i) (clip_writes s),
                effects := effects s @ [ExecCopy t]\<rparr>))"

text \<open>
  \<^verbatim>\<open>checkSystemStatus\<close> (lines 242 to 260): the request is sent by the constructor,
  the rest runs when it has ended.
\<close>

definition checkSystemStatus :: "state \<Rightarrow> state" where
  "checkSystemStatus s =
     s\<lparr>status_pending := True,
       effects := effects s @
         [Fetch (next_id s) \<lparr>url = ''/model_status'', http_method = ''GET'', form = []\<rparr>],
       next_id := next_id s + 1\<rparr>"

definition checkSystemStatus_resume :: "status_reply outcome \<Rightarrow> state \<Rightarrow> state" where
  "checkSystemStatus_resume out s =
     (case out of
        Parsed d \<Rightarrow>
          s\<lparr>status_pending := False,
            systemStatus_text := textContent_of (status d),
            systemStatus_class :=
              (if engine d = Some ''pillow'' then ''status-value status-demo''
               else ''status-value status-available'')\<rparr>
      | _ \<Rightarrow>
          (console_error msg_console_status s)
            \<lparr>status_pending := False,
             systemStatus_text := msg_status_error,
             systemStatus_class := ''status-value status-error''\<rparr>)"

text \<open>
  The constructor (lines 2 to 7), on the state of the page as its markup leaves it. The
  markup is not part of the sources, so the page is the argument.
\<close>

definition constructor :: "state \<Rightarrow> state" where
  "constructor page = checkSystemStatus (page\<lparr>currentFile := None\<rparr>)"

text \<open>
  A page on which nothing has run yet: no effect, no pending work and no notification
  element.
\<close>

definition fresh_page :: "state \<Rightarrow> bool" where
  "fresh_page page \<longleftrightarrow>
     effects page = [] \<and> uploads page = [] \<and> readers page = [] \<and>
     clip_writes page = [] \<and> \<not> status_pending page \<and> timers page = [] \<and>
     notifications page = []"

subsection \<open>Events\<close>

text \<open>
  The events the listeners of \<^verbatim>\<open>setupEventListeners\<close> and the pending work give rise
  to. An event that ends pending work can only happen while that work is pending;
  \<open>step\<close> is \<open>None\<close> otherwise.
\<close>

datatype event =
    Change "File list"
  | DragOver
  | DragLeave
  | Drop "File list"
  | ClickRecognize
  | UploadSettled nat "upload_reply outcome"
  | ReaderLoad nat
  | ReaderError nat
  | ClickCopy
  | ClipboardSettled nat bool
  | StatusSettled "status_reply outcome"
  | Timeout nat

fun step :: "state \<Rightarrow> event \<Rightarrow> state option" where
  "step s (Change files) = Some (on_change files s)"
| "step s DragOver = Some (handleDragOver s)"
| "step s DragLeave = Some (handleDragLeave s)"
| "step s (Drop files) = Some (handleDrop files s)"
| "step s ClickRecognize = Some (recognizeText s)"
| "step s (UploadSettled i out) =
     (case map_of (uploads s) i of
        None \<Rightarrow> None
      | Some _ \<Rightarrow> Some (recognizeText_resume i out s))"
| "step s (ReaderLoad i) =
     (case map_of (readers s) i of
        None \<Rightarrow> None
      | Some f \<Rightarrow> Some (reader_onload f (s\<lparr>readers := filter (\<lambda>p. fst p \<noteq> i) (readers s)\<rparr>)))"
| "step s (ReaderError i) =
     (case map_of (readers s) i of
        None \<Rightarrow> None
      | Some _ \<Rightarrow> Some (reader_onerror (s\<lparr>readers := filter (\<lambda>p. fst p \<noteq> i) (readers s)\<rparr>)))"
| "step s ClickCopy = Some (copyToClipboard s)"
| "step s (ClipboardSettled i ok) =
     (case map_of (clip_writes s) i of
        None \<Rightarrow> None
      | Some t \<Rightarrow> Some (copyToClipboard_resume i t ok s))"
| "step s (StatusSettled out) =
     (if status_pending s then Some (checkSystemStatus_resume out s) else None)"
| "step s (Timeout n) =
     (if n \<in> set (timers s) then Some (notification_timeout n s) else None)"

fun run :: "state \<Rightarrow> event list \<Rightarrow> state option" where
  "run s [] = Some s"
| "run s (e # es) = (case step s e of None \<Rightarrow> None | Some s' \<Rightarrow> run s' es)"

subsection \<open>Notions used in the statements\<close>

text \<open>
  The validation as the specification words it: the MIME type is one of the five image
  types and the size is at most 16 MiB. \<open>handleFileSelect_accepts_iff\<close> below compares it
  with the two checks of \<^verbatim>\<open>handleFileSelect\<close>.
\<close>

definition acceptable :: "File \<Rightarrow> bool" where
  "acceptable f \<longleftrightarrow>
     ftype f \<in> {''image/png'', ''image/jpeg'', ''image/jpg'', ''image/bmp'', ''image/tiff''} \<and>
     fsize f \<le> 16 * 1024 * 1024"

text \<open>The network requests among the effects, in the order they were sent.\<close>

fun fetches :: "effect list \<Rightarrow> request list" where
  "fetches [] = []"
| "fetches (Fetch i r # es) = r # fetches es"
| "fetches (_ # es) = fetches es"

text \<open>The request \<^verbatim>\<open>recognizeText\<close> sends for the file \<open>f\<close>.\<close>

definition upload_request :: "File \<Rightarrow> request" where
  "upload_request f = \<lparr>url = ''/upload'', http_method = ''POST'', form = [(''file'', f)]\<rparr>"

text \<open>An outcome that takes \<^verbatim>\<open>recognizeText\<close> to its \<^verbatim>\<open>catch\<close>.\<close>

fun thrown :: "'a outcome \<Rightarrow> bool" where
  "thrown (Parsed d) = False"
| "thrown _ = True"

text \<open>A failed recognition: something was thrown, or the server reported no success.\<close>

fun failed :: "upload_reply outcome \<Rightarrow> bool" where
  "failed (Parsed d) = (\<not> success d)"
| "failed _ = True"

text \<open>
  The events that enable the recognize button: the selection of an acceptable file, and
  the end of an upload.
\<close>

fun enabling :: "event \<Rightarrow> bool" where
  "enabling (Change (f # fs)) = acceptable f"
| "enabling (Drop (f # fs)) = acceptable f"
| "enabling (UploadSettled i out) = True"
| "enabling _ = False"

text \<open>
  The events on whose path the code calls \<^verbatim>\<open>showError\<close>: the selection of a file
  that is not acceptable, a failed read, and a failed recognition.
\<close>

fun reports_error :: "event \<Rightarrow> bool" where
  "reports_error (Change (f # fs)) = (\<not> acceptable f)"
| "reports_error (Drop (f # fs)) = (\<not> acceptable f)"
| "reports_error (ReaderError i) = True"
| "reports_error (UploadSettled i out) = failed out"
| "reports_error _ = False"

text \<open>The file an event selects, if it selects one.\<close>

fun selected :: "event \<Rightarrow> File option" where
  "selected (Change (f # fs)) = (if acceptable f then Some f else None)"
| "selected (Drop (f # fs)) = (if acceptable f then Some f else None)"
| "selected _ = None"

subsection \<open>Sample data\<close>

text \<open>
  A page before the script runs, with the recognize button disabled, and four files:
  \<^verbatim>\<open>a.png\<close> of 1 KiB, \<^verbatim>\<open>b.jpg\<close> of 2 KiB, a text file \<^verbatim>\<open>a.txt\<close>, and a PNG
  one byte over the limit.
\<close>

definition page0 :: state where
  "page0 =
     \<lparr>currentFile = None, fileInput_value = [], uploadArea = PageMarkup, drag_over = False,
      fileName_text = [], fileName_color = [], fileNameDisplay_text = [],
      recognizeBtn_disabled = True, recognizeBtn_text = lbl_recognize,
      resultText_text = txt_placeholder, resultText_color = ''#666'',
      systemStatus_text = [], systemStatus_class = ''status-value'',
      notifications = [], effects = [], uploads = [], readers = [],
      clip_writes = [], status_pending = False, timers = [], next_id = 0\<rparr>"

definition a_png :: File where
  "a_png = \<lparr>fname = [97, 46, 112, 110, 103], ftype = ''image/png'', fsize = 1024\<rparr>"

definition b_jpg :: File where
  "b_jpg = \<lparr>fname = [98, 46, 106, 112, 103], ftype = ''image/jpeg'', fsize = 2048\<rparr>"

definition a_txt :: File where
  "a_txt = \<lparr>fname = [97, 46, 116, 120, 116], ftype = ''text/plain'', fsize = 10\<rparr>"

definition big_png :: File where
  "big_png = \<lparr>fname = [98, 105, 103, 46, 112, 110, 103], ftype = ''image/png'', fsize = 16777217\<rparr>"

text \<open>A reply of the server that reports the error \<^verbatim>\<open>bad\<close>.\<close>

definition bad_reply :: upload_reply where
  "bad_reply =
     \<lparr>success = False, recognized_text = None, filename = None, error = Some [98, 97, 100]\<rparr>"

text \<open>A reply of the server with the recognized text \<^verbatim>\<open>hi\<close>.\<close>

definition good_reply :: upload_reply where
  "good_reply =
     \<lparr>success = True, recognized_text = Some [104, 105],
      filename = Some [97, 46, 112, 110, 103], error = None\<rparr>"

text \<open>
  States of the sample page: \<^verbatim>\<open>a.png\<close> has been chosen; then the recognize button
  has been clicked, so that the upload 2 is running; then, with the upload still running,
  \<^verbatim>\<open>b.jpg\<close> has been dropped on the upload area. In \<open>failed0\<close> the upload of
  \<open>uploading0\<close> has ended with the server's error instead.
\<close>

definition chosen0 :: state where
  "chosen0 = on_change [a_png] (constructor page0)"

definition uploading0 :: state where
  "uploading0 = recognizeText chosen0"

definition dropped0 :: state where
  "dropped0 = handleDrop [b_jpg] uploading0"

definition failed0 :: state where
  "failed0 = recognizeText_resume 2 (Parsed bad_reply) uploading0"

text \<open>Every text a state shows: the texts of the elements and of the notifications.\<close>

definition displayed_texts :: "state \<Rightarrow> ustring list" where
  "displayed_texts s =
     [fileName_text s, fileNameDisplay_text s, recognizeBtn_text s, resultText_text s,
      systemStatus_text s] @ map ntext (notifications s)"

text \<open>
  The invariant behind the validation: the selected file, the files of the running
  uploads and the files in the forms of all requests sent so far are acceptable.
\<close>

definition valid_inv :: "state \<Rightarrow> bool" where
  "valid_inv s \<longleftrightarrow>
     (\<forall>f. currentFile s = Some f \<longrightarrow> acceptable f) \<and>
     (\<forall>r\<in>set (fetches (effects s)). \<forall>p\<in>set (form r). acceptable (snd p)) \<and>
     (\<forall>p\<in>set (uploads s). acceptable (snd p))"

section \<open>Properties\<close>

subsection \<open>Auxiliary facts\<close>

lemmas handler_defs =
  handleDragOver_def handleDragLeave_def restoreDefaultView_def enableRecognizeButton_def
  disableRecognizeButton_def hideResult_def resetFileSelection_def showError_def
  updateFileInfo_def displayFilePreview_def reader_onload_def reader_onerror_def
  handleFileSelect_def on_change_def handleDrop_def showNotification_def
  notification_timeout_def showResult_def setRecognizeButtonState_def console_error_def
  post_upload_def recognizeText_def recognizeText_try_def recognizeText_catch_def
  recognizeText_resume_def copyToClipboard_def copyToClipboard_resume_def
  checkSystemStatus_def checkSystemStatus_resume_def constructor_def

lemmas sample_defs =
  page0_def a_png_def b_jpg_def a_txt_def big_png_def bad_reply_def good_reply_def
  chosen0_def uploading0_def dropped0_def failed0_def allowedTypes_def acceptable_def

lemma fetches_append: "fetches (xs @ ys) = fetches xs @ fetches ys"
  by (induction xs rule: fetches.induct) simp_all

text \<open>The two checks of \<^verbatim>\<open>handleFileSelect\<close> are the validation of the specification.\<close>

lemma checks_iff_acceptable:
  "ftype f \<in> set allowedTypes \<and> \<not> fsize f > 16 * 1024 * 1024 \<longleftrightarrow> acceptable f"
  by (auto simp: acceptable_def allowedTypes_def)

lemma handleFileSelect_accepted:
  "acceptable f \<Longrightarrow>
   handleFileSelect (Some f) s =
     hideResult (enableRecognizeButton (updateFileInfo (fname f)
       (displayFilePreview f (s\<lparr>currentFile := Some f\<rparr>))))"
  using checks_iff_acceptable [of f] by (simp add: handleFileSelect_def)

lemma handleFileSelect_rejected:
  "\<not> acceptable f \<Longrightarrow>
   handleFileSelect (Some f) s =
     showError (Some (if ftype f \<notin> set allowedTypes then msg_bad_type else msg_too_big)) s"
  using checks_iff_acceptable [of f] by (auto simp add: handleFileSelect_def)

text \<open>
  The accept/reject table: a file is stored, enabled for recognition and handed to a
  reader exactly if it is acceptable; otherwise the selection is cleared and the button
  disabled.
\<close>

lemma handleFileSelect_accepts_iff:
  "(currentFile (handleFileSelect (Some f) s) = Some f \<and>
    \<not> recognizeBtn_disabled (handleFileSelect (Some f) s) \<and>
    (next_id s, f) \<in> set (readers (handleFileSelect (Some f) s))) \<longleftrightarrow> acceptable f"
  by (cases "acceptable f")
     (simp_all add: handleFileSelect_accepted handleFileSelect_rejected showError_def
        resetFileSelection_def restoreDefaultView_def disableRecognizeButton_def hideResult_def
        enableRecognizeButton_def updateFileInfo_def displayFilePreview_def)

text \<open>
  A rejected file leaves the file-name label empty and the notifications as they were:
  the message \<^verbatim>\<open>showError\<close> writes is erased by \<^verbatim>\<open>resetFileSelection\<close>.
\<close>

lemma handleFileSelect_rejects:
  "\<not> acceptable f \<Longrightarrow>
   currentFile (handleFileSelect (Some f) s) = None \<and>
   recognizeBtn_disabled (handleFileSelect (Some f) s) \<and>
   readers (handleFileSelect (Some f) s) = readers s \<and>
   fileName_text (handleFileSelect (Some f) s) = [] \<and>
   notifications (handleFileSelect (Some f) s) = notifications s"
  by (simp add: handleFileSelect_rejected showError_def resetFileSelection_def
        restoreDefaultView_def disableRecognizeButton_def)

text \<open>Only a click on the recognize button sends a request.\<close>

lemma step_fetches:
  "step s e = Some s' \<Longrightarrow> e \<noteq> ClickRecognize \<Longrightarrow> fetches (effects s') = fetches (effects s)"
  by (cases e)
     (auto simp: handler_defs fetches_append
           split: option.splits list.splits if_splits outcome.splits)

lemma recognizeText_fetches:
  "currentFile s = Some f \<Longrightarrow>
   fetches (effects (recognizeText s)) = fetches (effects s) @ [upload_request f] \<and>
   (next_id s, f) \<in> set (uploads (recognizeText s))"
  by (simp add: recognizeText_def post_upload_def setRecognizeButtonState_def
        fetches_append upload_request_def)

lemma catch_notification:
  "thrown out \<Longrightarrow>
   notifications (recognizeText_resume i out s) =
     [\<lparr>nid = next_id s, nclass = ''notification notification-error'', ntext = msg_net_generic\<rparr>]"
  by (cases out) (simp_all add: handler_defs)

text \<open>
  What a reply with \<^verbatim>\<open>success: false\<close> leaves on the page: one error notification,
  whose text is the prefix of line 191 followed by the server's error.
\<close>

lemma server_error_notification:
  "\<not> success d \<Longrightarrow>
   notifications (recognizeText_resume i (Parsed d) s) =
     [\<lparr>nid = next_id s, nclass = ''notification notification-error'',
       ntext = pre_error @ template_of (error d)\<rparr>]"
  by (simp add: handler_defs)

text \<open>The validation invariant holds after the constructor and is kept by every event.\<close>

lemma step_valid_inv: "step s e = Some s' \<Longrightarrow> valid_inv s \<Longrightarrow> valid_inv s'"
  by (cases e)
     (auto simp: valid_inv_def handler_defs fetches_append checks_iff_acceptable[symmetric]
           split: option.splits list.splits if_splits outcome.splits)

lemma run_valid_inv: "run s evs = Some s' \<Longrightarrow> valid_inv s \<Longrightarrow> valid_inv s'"
  by (induction evs arbitrary: s) (auto split: option.splits dest: step_valid_inv)

lemma constructor_valid_inv: "fresh_page page \<Longrightarrow> valid_inv (constructor page)"
  by (simp add: fresh_page_def valid_inv_def constructor_def checkSystemStatus_def)

text \<open>
  An event that is not enabling keeps a disabled button disabled and ends no upload.
\<close>

lemma step_quiet:
  "step s e = Some s' \<Longrightarrow> \<not> enabling e \<Longrightarrow> recognizeBtn_disabled s \<Longrightarrow>
   recognizeBtn_disabled s' \<and> set (uploads s) \<subseteq> set (uploads s')"
  by (cases e)
     (auto simp: handler_defs checks_iff_acceptable[symmetric]
           split: option.splits list.splits if_splits outcome.splits)

lemma run_quiet:
  "run s evs = Some s' \<Longrightarrow> \<forall>e\<in>set evs. \<not> enabling e \<Longrightarrow> recognizeBtn_disabled s \<Longrightarrow>
   recognizeBtn_disabled s' \<and> set (uploads s) \<subseteq> set (uploads s')"
proof (induction evs arbitrary: s)
  case Nil
  then show ?case by simp
next
  case (Cons e evs)
  from Cons.prems(1) obtain t where t: "step s e = Some t" "run t evs = Some s'"
    by (auto split: option.splits)
  from step_quiet [OF t(1)] Cons.prems
  have mid: "recognizeBtn_disabled t" "set (uploads s) \<subseteq> set (uploads t)"
    by auto
  from Cons.IH [OF t(2)] Cons.prems mid(1)
  have "recognizeBtn_disabled s' \<and> set (uploads t) \<subseteq> set (uploads s')"
    by auto
  with mid(2) show ?case by blast
qed

text \<open>No event adds a second notification.\<close>

lemma step_notifications:
  "step s e = Some s' \<Longrightarrow> length (notifications s) \<le> 1 \<Longrightarrow> length (notifications s') \<le> 1"
  by (cases e)
     (auto simp: handler_defs le_trans [OF length_filter_le]
           split: option.splits list.splits if_splits outcome.splits)

lemma run_notifications:
  "run s evs = Some s' \<Longrightarrow> length (notifications s) \<le> 1 \<Longrightarrow> length (notifications s') \<le> 1"
  by (induction evs arbitrary: s) (auto split: option.splits dest: step_notifications)

subsection \<open>File selection\<close>

text \<open>
  Claim C1: a file offered to \<^verbatim>\<open>handleFileSelect\<close> is accepted exactly if its type is
  one of the five image types and its size is at most 16 MiB, and a file failing a check
  is rejected with an error message. The decision is as claimed
  (\<open>handleFileSelect_accepts_iff\<close>, \<open>handleFileSelect_rejects\<close>), the message is not: for
  the text file \<^verbatim>\<open>a.txt\<close>, in every state, \<^verbatim>\<open>showError\<close> writes the message into the
  file-name label and \<^verbatim>\<open>resetFileSelection\<close>, which it calls next, empties that label
  again; no notification is made. After the handler the selection is cleared, the button
  disabled, the label empty and the notifications are the ones there were before.
\<close>

theorem rejected_file_leaves_no_message:
  "\<not> acceptable a_txt \<and>
   currentFile (handleFileSelect (Some a_txt) s) = None \<and>
   recognizeBtn_disabled (handleFileSelect (Some a_txt) s) \<and>
   fileName_text (handleFileSelect (Some a_txt) s) = [] \<and>
   notifications (handleFileSelect (Some a_txt) s) = notifications s \<and>
   msg_bad_type \<notin> set (displayed_texts (handleFileSelect (Some a_txt) chosen0))"
  by (simp add: handler_defs sample_defs displayed_texts_def msg_bad_type_def pre_file_def
        lbl_recognize_def txt_placeholder_def)

text \<open>
  Claim C3: a file that fails the validation is rejected before any network call:
  \<^verbatim>\<open>handleFileSelect\<close> on it has no effect on the browser at all (so it sends no
  request and starts no upload), and in no run of the page, whatever the events, is the
  file among the running uploads or in the form of any request sent.
\<close>

theorem rejected_file_never_uploaded:
  assumes "\<not> acceptable f"
  shows "effects (handleFileSelect (Some f) s) = effects s \<and>
         uploads (handleFileSelect (Some f) s) = uploads s \<and>
         (fresh_page page \<and> run (constructor page) evs = Some s' \<longrightarrow>
            f \<notin> snd ` set (uploads s') \<and>
            (\<forall>r\<in>set (fetches (effects s')). f \<notin> snd ` set (form r)))"
proof -
  have "effects (handleFileSelect (Some f) s) = effects s"
    "uploads (handleFileSelect (Some f) s) = uploads s"
    using assms
    by (simp_all add: handleFileSelect_rejected showError_def resetFileSelection_def
          restoreDefaultView_def disableRecognizeButton_def)
  moreover have "f \<notin> snd ` set (uploads s') \<and>
            (\<forall>r\<in>set (fetches (effects s')). f \<notin> snd ` set (form r))"
    if "fresh_page page" "run (constructor page) evs = Some s'"
  proof -
    have "valid_inv s'"
      using that run_valid_inv constructor_valid_inv by blast
    then show ?thesis
      using assms unfolding valid_inv_def by auto
  qed
  ultimately show ?thesis by blast
qed

theorem rejected_file_never_uploaded_witness:
  "\<not> acceptable big_png \<and> fresh_page page0 \<and>
   run (constructor page0) [Change [big_png], Drop [a_png], ClickRecognize] =
     Some (recognizeText (handleDrop [a_png] (on_change [big_png] (constructor page0)))) \<and>
   effects (handleFileSelect (Some big_png) chosen0) = effects chosen0 \<and>
   uploads (handleFileSelect (Some big_png) chosen0) = uploads chosen0 \<and>
   big_png \<notin> snd ` set (uploads
     (recognizeText (handleDrop [a_png] (on_change [big_png] (constructor page0))))) \<and>
   map form (fetches (effects
     (recognizeText (handleDrop [a_png] (on_change [big_png] (constructor page0)))))) =
     [[], [(''file'', a_png)]]"
  using rejected_file_never_uploaded
          [of big_png chosen0 page0 "[Change [big_png], Drop [a_png], ClickRecognize]"
            "recognizeText (handleDrop [a_png] (on_change [big_png] (constructor page0)))"]
  by (simp add: sample_defs handler_defs fresh_page_def)

text \<open>
  Claim C6, as stated: the controller holds at most one selected file, which is created
  when a valid file is selected, replaced when another valid file is selected, and
  cleared on reset or on any error path. Not every error path clears it: with
  \<^verbatim>\<open>a.png\<close> selected and nothing recognized yet, a click on the copy button ends in the
  error notification of line 222 and the file is still selected; and when the status
  request of the constructor is rejected after the file was selected, the
  \<^verbatim>\<open>catch\<close> of \<^verbatim>\<open>checkSystemStatus\<close> writes its error text and the file is still
  selected.
\<close>

theorem copy_error_keeps_file:
  "run (constructor page0) [Change [a_png], ClickCopy] = Some (copyToClipboard chosen0) \<and>
   map ntext (notifications (copyToClipboard chosen0)) = [msg_nothing_to_copy] \<and>
   map nclass (notifications (copyToClipboard chosen0)) = [''notification notification-error''] \<and>
   currentFile (copyToClipboard chosen0) = Some a_png \<and>
   run (constructor page0) [Change [a_png], StatusSettled FetchRejected] =
     Some (checkSystemStatus_resume FetchRejected chosen0) \<and>
   systemStatus_text (checkSystemStatus_resume FetchRejected chosen0) = msg_status_error \<and>
   currentFile (checkSystemStatus_resume FetchRejected chosen0) = Some a_png"
  by (simp add: sample_defs handler_defs)

text \<open>
  Claim C6, amended: \<open>currentFile\<close> is one optional file, so there is at most one. Every
  event changes it in exactly this way: an event on whose path \<^verbatim>\<open>showError\<close> runs (a
  file that fails the validation is selected, a read fails, a recognition fails) sets it
  to null; the selection of an acceptable file sets it to that file, whether or not a
  file was selected before; every other event, the error notifications of
  \<^verbatim>\<open>copyToClipboard\<close> and of \<^verbatim>\<open>recognizeText\<close> without a file and a failed status
  check among them, leaves it as it is. \<^verbatim>\<open>resetFileSelection\<close> and \<^verbatim>\<open>showError\<close>
  always set it to null.
\<close>

theorem currentFile_lifecycle:
  assumes "step s e = Some s'"
  shows "currentFile s' =
           (if reports_error e then None
            else case selected e of Some f \<Rightarrow> Some f | None \<Rightarrow> currentFile s) \<and>
         currentFile (resetFileSelection t) = None \<and>
         currentFile (showError m t) = None"
proof -
  have "currentFile s' =
           (if reports_error e then None
            else case selected e of Some f \<Rightarrow> Some f | None \<Rightarrow> currentFile s)"
  proof (cases e)
    case (Change files)
    with assms show ?thesis
      by (cases files) (auto simp: handler_defs checks_iff_acceptable[symmetric])
  next
    case (Drop files)
    with assms show ?thesis
      by (cases files) (auto simp: handler_defs checks_iff_acceptable[symmetric])
  next
    case (UploadSettled i out)
    with assms show ?thesis
      by (cases out) (auto simp: handler_defs split: option.splits)
  next
    case (StatusSettled out)
    with assms show ?thesis
      by (cases out) (auto simp: handler_defs split: if_splits)
  qed (use assms in \<open>auto simp: handler_defs split: option.splits if_splits\<close>)
  then show ?thesis
    by (simp add: showError_def resetFileSelection_def restoreDefaultView_def
          disableRecognizeButton_def)
qed

theorem currentFile_lifecycle_witness:
  "step chosen0 (Drop [b_jpg]) = Some (handleDrop [b_jpg] chosen0) \<and>
   currentFile chosen0 = Some a_png \<and>
   currentFile (handleDrop [b_jpg] chosen0) = Some b_jpg \<and>
   currentFile (resetFileSelection chosen0) = None"
  using currentFile_lifecycle
          [of chosen0 "Drop [b_jpg]" "handleDrop [b_jpg] chosen0" chosen0 None]
  by (simp add: sample_defs handler_defs)

subsection \<open>Recognition\<close>



text \<open>
  Claim C4, as stated: once \<^verbatim>\<open>recognizeText\<close> has sent the request, the recognize
  button is never enabled before the request ends. On the sample page, \<^verbatim>\<open>a.png\<close> is
  chosen and the button clicked; while the upload 2 is running, \<^verbatim>\<open>b.jpg\<close> is dropped
  on the upload area, and \<^verbatim>\<open>handleFileSelect\<close> enables the button.
\<close>

theorem button_enabled_during_upload:
  "run (constructor page0) [Change [a_png], ClickRecognize, Drop [b_jpg]] = Some dropped0 \<and>
   recognizeBtn_disabled uploading0 \<and>
   uploads dropped0 = [(2, a_png)] \<and>
   \<not> recognizeBtn_disabled dropped0"
  by (simp add: sample_defs handler_defs)

text \<open>
  Claim C4, amended: \<^verbatim>\<open>recognizeText\<close> with a file selected disables the button and
  sends the request; through every sequence of events none of which selects an
  acceptable file or ends an upload, the button stays disabled and the request stays
  running; and when a request ends, with whatever outcome, the button is enabled and the
  request is no longer running.
\<close>

theorem button_disabled_during_upload:
  assumes "currentFile s = Some f"
  shows "recognizeBtn_disabled (recognizeText s) \<and>
         (next_id s, f) \<in> set (uploads (recognizeText s)) \<and>
         (run (recognizeText s) evs = Some s' \<and> (\<forall>e\<in>set evs. \<not> enabling e) \<longrightarrow>
            recognizeBtn_disabled s' \<and> (next_id s, f) \<in> set (uploads s')) \<and>
         \<not> recognizeBtn_disabled (recognizeText_resume i out t) \<and>
         i \<notin> fst ` set (uploads (recognizeText_resume i out t))"
proof -
  have a: "recognizeBtn_disabled (recognizeText s)"
    "(next_id s, f) \<in> set (uploads (recognizeText s))"
    using assms by (simp_all add: recognizeText_def post_upload_def setRecognizeButtonState_def)
  have b: "recognizeBtn_disabled s' \<and> (next_id s, f) \<in> set (uploads s')"
    if "run (recognizeText s) evs = Some s'" "\<forall>e\<in>set evs. \<not> enabling e"
    using run_quiet [OF that a(1)] a(2) by blast
  have c: "\<not> recognizeBtn_disabled (recognizeText_resume i out t)"
    by (simp add: recognizeText_resume_def setRecognizeButtonState_def)
  have d: "i \<notin> fst ` set (uploads (recognizeText_resume i out t))"
    by (cases out) (auto simp: handler_defs)
  from a b c d show ?thesis by blast
qed

theorem button_disabled_during_upload_witness:
  "currentFile chosen0 = Some a_png \<and>
   run (recognizeText chosen0) [ClickCopy, Change [a_txt], DragOver] =
     Some (handleDragOver (on_change [a_txt] (copyToClipboard uploading0))) \<and>
   recognizeBtn_disabled (handleDragOver (on_change [a_txt] (copyToClipboard uploading0))) \<and>
   (2, a_png) \<in> set (uploads (handleDragOver (on_change [a_txt] (copyToClipboard uploading0)))) \<and>
   \<not> recognizeBtn_disabled
       (recognizeText_resume 2 (Parsed good_reply)
          (handleDragOver (on_change [a_txt] (copyToClipboard uploading0))))"
  using button_disabled_during_upload
          [of chosen0 a_png "[ClickCopy, Change [a_txt], DragOver]"
            "handleDragOver (on_change [a_txt] (copyToClipboard uploading0))" 2
            "Parsed good_reply"
            "handleDragOver (on_change [a_txt] (copyToClipboard uploading0))"]
  by (simp add: sample_defs handler_defs)

text \<open>
  Claim C7, as stated: for a valid file the flow is, in exactly this order, validation,
  preview shown, upload on the user's request, display of the text or of an error. The
  preview is read by a \<^verbatim>\<open>FileReader\<close> and shown when the read has ended, and the
  code does not make the upload wait for it: on the sample page, \<^verbatim>\<open>a.png\<close> is chosen
  and the button clicked at once; the request is sent while the reader 1 is still
  running and the upload area shows no preview.
\<close>

theorem upload_before_preview:
  "run (constructor page0) [Change [a_png], ClickRecognize] = Some uploading0 \<and>
   fetches (effects uploading0) =
     [\<lparr>url = ''/model_status'', http_method = ''GET'', form = []\<rparr>, upload_request a_png] \<and>
   readers uploading0 = [(1, a_png)] \<and>
   uploadArea uploading0 \<noteq> PreviewImg a_png"
  by (simp add: sample_defs handler_defs upload_request_def)

text \<open>
  Claim C7, amended: for every file that passes the validation (type, then size),
  \<^verbatim>\<open>handleFileSelect\<close> stores it and starts the read for the preview, and does nothing
  else to the browser; the image is put into the upload area when the read has ended;
  no event other than the click on the recognize button sends a request; the click, with
  the file selected, sends one request, a POST to \<^verbatim>\<open>/upload\<close> whose form has the one
  field \<^verbatim>\<open>file\<close> holding that file; and when the request has ended, a reply with
  success puts \<^verbatim>\<open>recognized_text\<close> into the result box, a reply without success
  shows an error notification with the server's error, and anything thrown shows the
  network-error notification.
\<close>

theorem end_to_end_flow:
  assumes "acceptable f"
  shows "currentFile (handleFileSelect (Some f) s) = Some f \<and>
         effects (handleFileSelect (Some f) s) = effects s @ [ReadAsDataURL (next_id s) f] \<and>
         (next_id s, f) \<in> set (readers (handleFileSelect (Some f) s)) \<and>
         uploadArea (reader_onload f s1) = PreviewImg f \<and>
         (step s1 e = Some s2 \<and> e \<noteq> ClickRecognize \<longrightarrow>
            fetches (effects s2) = fetches (effects s1)) \<and>
         (currentFile s2 = Some f \<longrightarrow>
            fetches (effects (recognizeText s2)) = fetches (effects s2) @ [upload_request f] \<and>
            (next_id s2, f) \<in> set (uploads (recognizeText s2))) \<and>
         (success d \<longrightarrow>
            resultText_text (recognizeText_resume i (Parsed d) s3) =
              textContent_of (recognized_text d) \<and>
            map ntext (notifications (recognizeText_resume i (Parsed d) s3)) =
              [msg_recognized]) \<and>
         (\<not> success d \<longrightarrow>
            map ntext (notifications (recognizeText_resume i (Parsed d) s3)) =
              [pre_error @ template_of (error d)]) \<and>
         (thrown out \<longrightarrow>
            map ntext (notifications (recognizeText_resume i out s3)) = [msg_net_generic])"
proof -
  have a: "currentFile (handleFileSelect (Some f) s) = Some f"
    "effects (handleFileSelect (Some f) s) = effects s @ [ReadAsDataURL (next_id s) f]"
    "(next_id s, f) \<in> set (readers (handleFileSelect (Some f) s))"
    using assms
    by (simp_all add: handleFileSelect_accepted hideResult_def enableRecognizeButton_def
          updateFileInfo_def displayFilePreview_def)
  have b: "uploadArea (reader_onload f s1) = PreviewImg f"
    by (simp add: reader_onload_def)
  have d: "resultText_text (recognizeText_resume i (Parsed d) s3) =
              textContent_of (recognized_text d) \<and>
            map ntext (notifications (recognizeText_resume i (Parsed d) s3)) = [msg_recognized]"
    if "success d"
    using that by (simp add: handler_defs)
  have e: "map ntext (notifications (recognizeText_resume i (Parsed d) s3)) =
              [pre_error @ template_of (error d)]"
    if "\<not> success d"
    using that by (simp add: server_error_notification)
  have g: "map ntext (notifications (recognizeText_resume i out s3)) = [msg_net_generic]"
    if "thrown out"
    using that by (simp add: catch_notification)
  from a b d e g step_fetches recognizeText_fetches show ?thesis by blast
qed

theorem end_to_end_flow_witness:
  "acceptable a_png \<and>
   run (constructor page0)
     [Change [a_png], ReaderLoad 1, ClickRecognize, UploadSettled 2 (Parsed good_reply)] =
     Some (recognizeText_resume 2 (Parsed good_reply)
            (recognizeText (reader_onload a_png (chosen0\<lparr>readers := []\<rparr>)))) \<and>
   effects chosen0 = effects (constructor page0) @ [ReadAsDataURL 1 a_png] \<and>
   uploadArea (reader_onload a_png (chosen0\<lparr>readers := []\<rparr>)) = PreviewImg a_png \<and>
   fetches (effects (recognizeText (reader_onload a_png (chosen0\<lparr>readers := []\<rparr>)))) =
     fetches (effects (reader_onload a_png (chosen0\<lparr>readers := []\<rparr>))) @
     [upload_request a_png] \<and>
   resultText_text (recognizeText_resume 2 (Parsed good_reply)
            (recognizeText (reader_onload a_png (chosen0\<lparr>readers := []\<rparr>)))) = [104, 105]"
  using end_to_end_flow
          [where f = a_png and s = "constructor page0"
             and ?s1.0 = "chosen0\<lparr>readers := []\<rparr>" and e = ClickCopy
             and ?s2.0 = "reader_onload a_png (chosen0\<lparr>readers := []\<rparr>)"
             and d = good_reply and i = 2
             and ?s3.0 = "recognizeText (reader_onload a_png (chosen0\<lparr>readers := []\<rparr>))"
             and out = FetchRejected]
  by (simp add: sample_defs handler_defs)

text \<open>
  Claim C8: when the fetch or the parse of the reply throws, the generic network-error
  message is shown, and nothing is retried: the continuation of \<^verbatim>\<open>recognizeText\<close>
  sends no request and starts no upload, whatever the outcome; a click with a file
  selected sends exactly one POST to \<^verbatim>\<open>/upload\<close>; and no other event sends a request.
\<close>

theorem network_failure_notified_no_retry:
  "(thrown out \<longrightarrow>
      notifications (recognizeText_resume i out s) =
        [\<lparr>nid = next_id s, nclass = ''notification notification-error'',
          ntext = msg_net_generic\<rparr>]) \<and>
   fetches (effects (recognizeText_resume i out s)) = fetches (effects s) \<and>
   set (uploads (recognizeText_resume i out s)) \<subseteq> set (uploads s) \<and>
   (currentFile s = Some f \<longrightarrow>
      fetches (effects (recognizeText s)) = fetches (effects s) @ [upload_request f]) \<and>
   (step s e = Some s' \<and> e \<noteq> ClickRecognize \<longrightarrow> fetches (effects s') = fetches (effects s))"
proof -
  have b: "fetches (effects (recognizeText_resume i out s)) = fetches (effects s)"
    "set (uploads (recognizeText_resume i out s)) \<subseteq> set (uploads s)"
    by (cases out; auto simp: handler_defs fetches_append)+
  from b catch_notification step_fetches recognizeText_fetches show ?thesis by blast
qed

theorem network_failure_notified_no_retry_witness:
  "thrown (JsonRejected :: upload_reply outcome) \<and> currentFile chosen0 = Some a_png \<and>
   fetches (effects uploading0) = fetches (effects chosen0) @ [upload_request a_png] \<and>
   map ntext (notifications (recognizeText_resume 2 JsonRejected uploading0)) =
     [msg_net_generic] \<and>
   fetches (effects (recognizeText_resume 2 JsonRejected uploading0)) =
     fetches (effects uploading0) \<and>
   step uploading0 (UploadSettled 2 JsonRejected) =
     Some (recognizeText_resume 2 JsonRejected uploading0)"
  using network_failure_notified_no_retry
          [of JsonRejected 2 uploading0 a_png "UploadSettled 2 JsonRejected"
            "recognizeText_resume 2 JsonRejected uploading0"]
        network_failure_notified_no_retry
          [of JsonRejected 2 chosen0 a_png DragOver "handleDragOver chosen0"]
  by (simp add: sample_defs handler_defs)

text \<open>
  Claim C9: \<^verbatim>\<open>recognizeText\<close> without a selected file shows an error notification,
  sends no request and starts no upload, and leaves the selected file, the result text,
  the file-name label and the file-name display as they are: it changes the
  notifications, the timers, the effects (by the timer it sets) and the next identifier
  only.
\<close>

theorem recognizeText_without_file:
  assumes "currentFile s = None"
  shows "recognizeText s =
           s\<lparr>notifications :=
               [\<lparr>nid = next_id s, nclass = ''notification notification-error'',
                 ntext = msg_choose_first\<rparr>],
             timers := timers s @ [next_id s],
             effects := effects s @ [SetTimeout (next_id s) 4000],
             next_id := next_id s + 1\<rparr> \<and>
         fetches (effects (recognizeText s)) = fetches (effects s) \<and>
         uploads (recognizeText s) = uploads s \<and>
         currentFile (recognizeText s) = None \<and>
         resultText_text (recognizeText s) = resultText_text s \<and>
         fileName_text (recognizeText s) = fileName_text s \<and>
         fileNameDisplay_text (recognizeText s) = fileNameDisplay_text s"
  using assms by (simp add: recognizeText_def showNotification_def fetches_append)

theorem recognizeText_without_file_witness:
  "currentFile failed0 = None \<and> \<not> recognizeBtn_disabled failed0 \<and>
   map ntext (notifications (recognizeText failed0)) = [msg_choose_first] \<and>
   fetches (effects (recognizeText failed0)) = fetches (effects failed0) \<and>
   uploads (recognizeText failed0) = [] \<and>
   resultText_text (recognizeText failed0) = txt_placeholder"
  using recognizeText_without_file [of failed0]
  by (simp add: sample_defs handler_defs)

text \<open>
  Claim C10: after a failed recognition (a reply without success, or something thrown)
  the selected file is null and the recognize button is enabled, so the state with the
  button enabled and no file selected is reachable: from every page, by choosing a file,
  clicking the button and letting the request fail.
\<close>

theorem enabled_without_file:
  "(failed out \<longrightarrow>
      currentFile (recognizeText_resume i out s) = None \<and>
      \<not> recognizeBtn_disabled (recognizeText_resume i out s)) \<and>
   (\<exists>evs s'. run (constructor page) evs = Some s' \<and>
      currentFile s' = None \<and> \<not> recognizeBtn_disabled s')"
proof -
  have a: "currentFile (recognizeText_resume i out s) = None \<and>
      \<not> recognizeBtn_disabled (recognizeText_resume i out s)" if "failed out"
    using that by (cases out) (simp_all add: handler_defs)
  let ?evs = "[Change [a_png], ClickRecognize, UploadSettled (next_id page + 2) FetchRejected]"
  let ?s = "recognizeText_resume (next_id page + 2) FetchRejected
              (recognizeText (on_change [a_png] (constructor page)))"
  have "run (constructor page) ?evs = Some ?s"
    by (simp add: sample_defs handler_defs map_of_append split: option.splits)
  moreover have "currentFile ?s = None \<and> \<not> recognizeBtn_disabled ?s"
    by (simp add: handler_defs)
  ultimately show ?thesis using a by blast
qed

theorem enabled_without_file_witness:
  "failed (Parsed bad_reply) \<and>
   currentFile failed0 = None \<and> \<not> recognizeBtn_disabled failed0 \<and>
   run (constructor page0) [Change [a_png], ClickRecognize, UploadSettled 2 (Parsed bad_reply)] =
     Some failed0"
  using enabled_without_file [of "Parsed bad_reply" 2 uploading0 page0]
  by (simp add: sample_defs handler_defs)

subsection \<open>Notifications\<close>

text \<open>
  Claim C5, as stated: at every point exactly one notification is visible. On the sample
  page there is none after the constructor; the copy button, clicked with nothing to
  copy, shows one; and when its timer fires there is none again.
\<close>

theorem no_notification_after_timeout:
  "run (constructor page0) [Change [a_png], ClickCopy, Timeout 2] =
     Some (notification_timeout 2 (copyToClipboard chosen0)) \<and>
   length (notifications (constructor page0)) \<noteq> 1 \<and>
   length (notifications (copyToClipboard chosen0)) = 1 \<and>
   length (notifications (notification_timeout 2 (copyToClipboard chosen0))) \<noteq> 1"
  by (simp add: sample_defs handler_defs)

text \<open>
  Claim C5, amended: at every point at most one notification is visible.
  \<^verbatim>\<open>showNotification\<close> leaves exactly one, the new one, whatever was there before; no
  event takes a state with at most one notification to a state with more; so in every
  run from a page without notifications there is at most one at every point. There is
  none after the constructor on such a page; the timer's callback for the one
  notification there is removes it and leaves none; and the timer that
  \<^verbatim>\<open>showNotification\<close> sets can fire right after it, which leaves none.
\<close>

theorem at_most_one_notification:
  "notifications (showNotification m t s) =
     [\<lparr>nid = next_id s, nclass = ''notification notification-'' @ t, ntext = m\<rparr>] \<and>
   (length (notifications s) \<le> 1 \<and> run s evs = Some s' \<longrightarrow> length (notifications s') \<le> 1) \<and>
   (fresh_page page \<and> run (constructor page) evs = Some s' \<longrightarrow>
      length (notifications s') \<le> 1) \<and>
   (fresh_page page \<longrightarrow> notifications (constructor page) = []) \<and>
   (notifications s = [x] \<and> nid x = n \<longrightarrow> notifications (notification_timeout n s) = []) \<and>
   step (showNotification m t s) (Timeout (next_id s)) =
     Some (notification_timeout (next_id s) (showNotification m t s)) \<and>
   notifications (notification_timeout (next_id s) (showNotification m t s)) = []"
proof -
  have a: "notifications (constructor page) = []" if "fresh_page page"
    using that by (simp add: fresh_page_def constructor_def checkSystemStatus_def)
  have b: "notifications (notification_timeout n s) = []"
    if "notifications s = [x]" "nid x = n"
    using that by (simp add: notification_timeout_def)
  have c: "step (showNotification m t s) (Timeout (next_id s)) =
        Some (notification_timeout (next_id s) (showNotification m t s))"
    "notifications (notification_timeout (next_id s) (showNotification m t s)) = []"
    by (simp_all add: showNotification_def notification_timeout_def)
  have d: "length (notifications s') \<le> 1"
    if "fresh_page page" "run (constructor page) evs = Some s'"
    using run_notifications [OF that(2)] a [OF that(1)] by simp
  have e: "notifications (showNotification m t s) =
     [\<lparr>nid = next_id s, nclass = ''notification notification-'' @ t, ntext = m\<rparr>]"
    by (simp add: showNotification_def)
  from a b c d e run_notifications show ?thesis by blast
qed

theorem at_most_one_notification_witness:
  "fresh_page page0 \<and>
   notifications (constructor page0) = [] \<and>
   run (constructor page0) [Change [a_png], ClickCopy, ClickRecognize] =
     Some (recognizeText (copyToClipboard chosen0)) \<and>
   length (notifications (copyToClipboard chosen0)) \<le> 1 \<and>
   run (copyToClipboard chosen0) [ClickRecognize] = Some (recognizeText (copyToClipboard chosen0)) \<and>
   length (notifications (recognizeText (copyToClipboard chosen0))) \<le> 1 \<and>
   notifications (copyToClipboard chosen0) =
     [\<lparr>nid = 2, nclass = ''notification notification-error'', ntext = msg_nothing_to_copy\<rparr>] \<and>
   notifications (notification_timeout 2 (copyToClipboard chosen0)) = []"
  using at_most_one_notification
          [where m = "[]" and t = "[]" and s = "copyToClipboard chosen0"
             and evs = "[ClickRecognize]" and ?s' = "recognizeText (copyToClipboard chosen0)"
             and page = page0 and n = 2
             and x = "\<lparr>nid = 2, nclass = ''notification notification-error'',
                        ntext = msg_nothing_to_copy\<rparr>"]
        at_most_one_notification
          [where m = "[]" and t = "[]" and s = "constructor page0"
             and evs = "[Change [a_png], ClickCopy, ClickRecognize]"
             and ?s' = "recognizeText (copyToClipboard chosen0)"
             and page = page0 and n = 2
             and x = "\<lparr>nid = 2, nclass = ''notification notification-error'',
                        ntext = msg_nothing_to_copy\<rparr>"]
  by (simp add: sample_defs handler_defs fresh_page_def)

end
